theory Spec2Isabelle
  imports Main
begin

section \<open>The TAXII 1.1 client of cabby: push, poll and fulfilment\<close>

text \<open>
  A shallow embedding of \<^verbatim>\<open>cabby/client11.py\<close> (class \<^verbatim>\<open>Client11\<close>), restricted to
  the operations \<^verbatim>\<open>push\<close>, \<^verbatim>\<open>poll\<close> and \<^verbatim>\<open>fulfilment\<close>.

  \<^verbatim>\<open>poll\<close> and \<^verbatim>\<open>fulfilment\<close> contain \<^verbatim>\<open>yield\<close>: they are Python generator functions.
  Calling one builds a generator object and runs none of its body; each \<^verbatim>\<open>next()\<close> resumes
  the body up to the following \<^verbatim>\<open>yield\<close>, the end of the body (StopIteration) or an
  exception. A generator is modelled by its control state, and \<^verbatim>\<open>next()\<close> by a function
  from a control state and the state of the world to an outcome, the new control state
  and the new world.
\<close>

subsection \<open>Data\<close>

type_synonym datetime = nat
type_synonym uri = string
type_synonym message_id = nat

text \<open>The service types \<^verbatim>\<open>const.SVC_*\<close> handed to \<^verbatim>\<open>_execute_request\<close>.\<close>

datatype service_type = SVC_INBOX | SVC_POLL | SVC_COLLECTION_MANAGEMENT | SVC_DISCOVERY

text \<open>
  The exceptions the docstrings list, the transport and conversion failures of the
  collaborators, and the AttributeError Python raises when \<^verbatim>\<open>.content_blocks\<close> is read from
  a response that is not a poll response.
\<close>

datatype error =
    ValueError
  | UnsuccessfulStatusError string
  | ServiceNotFoundError
  | AmbiguousServicesError
  | NoURIProvidedError
  | TransportError string
  | ConversionError string
  | AttributeError

text \<open>
  A content binding as the caller gives it (a string, or an entity with subtypes), and as
  libtaxii carries it (\<^verbatim>\<open>tm11.ContentBinding\<close>).
\<close>

datatype binding_arg = BindingId string | BindingEntity string "string list"

datatype content_binding11 = ContentBinding11 string "string list"

text \<open>\<^verbatim>\<open>cabby.entities.InboxService\<close>, read by \<^verbatim>\<open>poll\<close> through three attributes.\<close>

record inbox_service_entity =
  protocol :: string
  address :: string
  message_bindings :: "string list"

text \<open>
  \<^verbatim>\<open>tm11.DeliveryParameters\<close>. \<^verbatim>\<open>delivery_message_binding\<close> is the first message binding of
  the inbox service, or the empty list \<^verbatim>\<open>[]\<close> when it has none: \<open>None\<close> stands for that
  empty list.
\<close>

record delivery_parameters =
  inbox_protocol :: string
  inbox_address :: string
  delivery_message_binding :: "string option"

datatype response_type = RT_COUNT_ONLY | RT_FULL

text \<open>
  \<^verbatim>\<open>tm11.PollRequest.PollParameters(**poll_params)\<close>: the key \<^verbatim>\<open>content_bindings\<close> is always
  in the dict; the other three keys only under their \<^verbatim>\<open>if\<close>, and \<open>None\<close> is a key
  that was not passed.
\<close>

record poll_parameters =
  pp_content_bindings :: "content_binding11 list"
  pp_delivery_parameters :: "delivery_parameters option"
  pp_allow_asynch :: "bool option"
  pp_response_type :: "response_type option"

text \<open>
  \<^verbatim>\<open>tm11.PollRequest(**data)\<close>: \<^verbatim>\<open>message_id\<close>, \<^verbatim>\<open>collection_name\<close> and the two timestamp
  labels are always in \<^verbatim>\<open>data\<close>; \<^verbatim>\<open>subscription_id\<close> and \<^verbatim>\<open>poll_parameters\<close> are keys that
  one branch or the other adds (\<open>None\<close>: the key is not in \<^verbatim>\<open>data\<close>).
\<close>

record poll_request =
  pr_message_id :: message_id
  pr_collection_name :: string
  pr_exclusive_begin_timestamp_label :: "datetime option"
  pr_inclusive_end_timestamp_label :: "datetime option"
  pr_subscription_id :: "string option"
  pr_poll_parameters :: "poll_parameters option"

text \<open>\<^verbatim>\<open>tm11.PollFulfillmentRequest\<close>.\<close>

record poll_fulfillment_request =
  fr_message_id :: message_id
  fr_collection_name :: string
  fr_result_id :: string
  fr_result_part_number :: int

text \<open>\<^verbatim>\<open>tm11.ContentBlock\<close>, the wire-level content block.\<close>

record content_block11 =
  content :: string
  content_binding :: content_binding11
  timestamp_label :: datetime

text \<open>\<^verbatim>\<open>tm11.InboxMessage\<close>.\<close>

record inbox_message =
  im_message_id :: message_id
  im_content_blocks :: "content_block11 list"
  destination_collection_names :: "string list"

datatype request =
    PollRequest poll_request
  | PollFulfillmentRequest poll_fulfillment_request
  | InboxMessage inbox_message

text \<open>
  What \<^verbatim>\<open>_execute_request\<close> returns: a poll response, with the four attributes \<^verbatim>\<open>poll\<close>
  reads, or a status message (the answer to an inbox message), which has no
  \<^verbatim>\<open>content_blocks\<close> attribute. The attribute \<^verbatim>\<open>more\<close> is the field \<open>more_flag\<close>
  (\<open>more\<close> is taken by the record package).
\<close>

record poll_response =
  content_blocks :: "content_block11 list"
  more_flag :: bool
  result_id :: string
  result_part_number :: int

datatype response = PollResponse poll_response | StatusMessage string

text \<open>\<^verbatim>\<open>cabby.entities.ContentBlock\<close>, the entity the generators yield.\<close>

record content_block_entity =
  en_content :: string
  en_binding :: content_binding11
  en_timestamp :: datetime

subsection \<open>The collaborators and the world\<close>

text \<open>
  One call of \<^verbatim>\<open>self._execute_request(request, uri=..., service_type=...)\<close>, as the world's
  log keeps it.
\<close>

type_synonym exchange = "request \<times> uri option \<times> service_type"

text \<open>
  The code that is imported and not part of this file is a parameter of the model:
  \<^item> \<open>execute_request\<close> is \<^verbatim>\<open>AbstractClient._execute_request\<close> together with the server
    behind it: it raises (\<open>Inl\<close>) or returns a response, and its answer may depend on
    every exchange made before;
  \<^item> \<open>to_content_block_entity\<close> is the converter of \<^verbatim>\<open>cabby.converters\<close>;
  \<^item> \<open>pack_content_bindings\<close> and \<open>pack_content_binding\<close> are the helpers of
    \<^verbatim>\<open>cabby.utils\<close>, called with \<^verbatim>\<open>version=11\<close>;
  \<^item> \<open>get_utc_now\<close> is the clock of \<^verbatim>\<open>cabby.utils\<close>.
\<close>

record env =
  execute_request :: "exchange list \<Rightarrow> request \<Rightarrow> uri option \<Rightarrow> service_type \<Rightarrow> error + response"
  to_content_block_entity :: "content_block11 \<Rightarrow> error + content_block_entity"
  pack_content_bindings :: "binding_arg list option \<Rightarrow> content_binding11 list"
  pack_content_binding :: "binding_arg \<Rightarrow> content_binding11"
  get_utc_now :: datetime

text \<open>
  The world: how many identifiers the operations of this file have asked for, and the
  calls of \<^verbatim>\<open>_execute_request\<close> they have made, oldest first.
\<close>

record world =
  ids_generated :: nat
  requests :: "exchange list"

text \<open>
  Modelled from the spec: \<^verbatim>\<open>AbstractClient._generate_id\<close> is not in this file. The
  Identifier Generator "produces a new value each call": the identifier is the number of
  identifiers generated before.
\<close>

definition generate_id :: "world \<Rightarrow> message_id \<times> world" where
  "generate_id w = (ids_generated w, w\<lparr>ids_generated := Suc (ids_generated w)\<rparr>)"

definition execute :: "env \<Rightarrow> request \<Rightarrow> uri option \<Rightarrow> service_type \<Rightarrow> world \<Rightarrow> (error + response) \<times> world" where
  "execute e request u service w =
     (execute_request e (requests w) request u service,
      w\<lparr>requests := requests w @ [(request, u, service)]\<rparr>)"

subsection \<open>push\<close>

text \<open>
  \<^verbatim>\<open>push\<close> has no \<^verbatim>\<open>return\<close> statement: when \<^verbatim>\<open>_execute_request\<close> does not raise, the
  response is dropped and the call evaluates to Python's \<^verbatim>\<open>None\<close>. The result is
  \<open>Inl\<close> the exception, or \<open>Inr\<close> the returned object, where \<open>None\<close> is \<^verbatim>\<open>None\<close> and
  \<open>Some r\<close> would be a response object. \<^verbatim>\<open>timestamp or get_utc_now()\<close>: a datetime is
  always truthy. \<^verbatim>\<open>if collections_names:\<close> skips \<^verbatim>\<open>None\<close> and the empty list, and
  extending by the empty list changes nothing.
\<close>

definition push :: "env \<Rightarrow> string \<Rightarrow> binding_arg \<Rightarrow> string list option \<Rightarrow> datetime option \<Rightarrow> uri option
    \<Rightarrow> world \<Rightarrow> (error + response option) \<times> world" where
  "push e content_arg binding collections_names timestamp u w =
     (let content_block = \<lparr>content = content_arg,
                            content_binding = pack_content_binding e binding,
                            timestamp_label = (case timestamp of Some t \<Rightarrow> t | None \<Rightarrow> get_utc_now e)\<rparr>;
          (mid, w1) = generate_id w;
          message = \<lparr>im_message_id = mid,
                      im_content_blocks = [content_block],
                      destination_collection_names =
                        (case collections_names of Some names \<Rightarrow> names | None \<Rightarrow> [])\<rparr>;
          (res, w2) = execute e (InboxMessage message) u SVC_INBOX w1
      in case res of
           Inl err \<Rightarrow> (Inl err, w2)
         | Inr _ \<Rightarrow> (Inr None, w2))"

subsection \<open>The poll request\<close>

text \<open>The keyword arguments of \<^verbatim>\<open>poll\<close>.\<close>

record poll_args =
  collection_name :: string
  begin_date :: "datetime option"
  end_date :: "datetime option"
  count_only :: bool
  subscription_id :: "string option"
  inbox_service :: "inbox_service_entity option"
  content_bindings :: "binding_arg list option"
  uri :: "uri option"

text \<open>\<^verbatim>\<open>if subscription_id:\<close> is Python truthiness: \<^verbatim>\<open>None\<close> and \<^verbatim>\<open>''\<close> are false.\<close>

definition truthy :: "string option \<Rightarrow> bool" where
  "truthy s = (case s of None \<Rightarrow> False | Some x \<Rightarrow> x \<noteq> [])"

text \<open>
  The dict \<^verbatim>\<open>poll_params\<close> of the \<^verbatim>\<open>else\<close> branch. An entity object is truthy, so
  \<^verbatim>\<open>if inbox_service:\<close> only tests for \<^verbatim>\<open>None\<close>.
\<close>

definition build_poll_parameters :: "env \<Rightarrow> poll_args \<Rightarrow> poll_parameters" where
  "build_poll_parameters e a =
     \<lparr>pp_content_bindings = pack_content_bindings e (content_bindings a),
      pp_delivery_parameters =
        (case inbox_service a of
           None \<Rightarrow> None
         | Some s \<Rightarrow> Some \<lparr>inbox_protocol = protocol s,
                           inbox_address = address s,
                           delivery_message_binding =
                             (case message_bindings s of [] \<Rightarrow> None | b # _ \<Rightarrow> Some b)\<rparr>),
      pp_allow_asynch = (case inbox_service a of None \<Rightarrow> None | Some _ \<Rightarrow> Some True),
      pp_response_type = (if count_only a then Some RT_COUNT_ONLY else None)\<rparr>"

text \<open>The dict \<^verbatim>\<open>data\<close> handed to \<^verbatim>\<open>tm11.PollRequest\<close>.\<close>

definition build_poll_request :: "env \<Rightarrow> message_id \<Rightarrow> poll_args \<Rightarrow> poll_request" where
  "build_poll_request e mid a =
     (if truthy (subscription_id a)
      then \<lparr>pr_message_id = mid,
            pr_collection_name = collection_name a,
            pr_exclusive_begin_timestamp_label = begin_date a,
            pr_inclusive_end_timestamp_label = end_date a,
            pr_subscription_id = subscription_id a,
            pr_poll_parameters = None\<rparr>
      else \<lparr>pr_message_id = mid,
            pr_collection_name = collection_name a,
            pr_exclusive_begin_timestamp_label = begin_date a,
            pr_inclusive_end_timestamp_label = end_date a,
            pr_subscription_id = None,
            pr_poll_parameters = Some (build_poll_parameters e a)\<rparr>)"

subsection \<open>Generators\<close>

text \<open>What one \<^verbatim>\<open>next()\<close> on a generator gives its consumer.\<close>

datatype outcome = Yield content_block_entity | Raise error | StopIteration

text \<open>
  The control states of a \<^verbatim>\<open>fulfilment\<close> generator: created and not started (with its
  arguments), suspended at the \<^verbatim>\<open>yield\<close> of its loop (with the blocks \<^verbatim>\<open>imap\<close> has not
  converted yet), or finished.
\<close>

datatype ful_state =
    FulNew string string int "uri option"
  | FulBlocks "content_block11 list"
  | FulFinished

text \<open>The call \<^verbatim>\<open>fulfilment(collection_name, result_id, part_number, uri)\<close>.\<close>

definition fulfilment :: "string \<Rightarrow> string \<Rightarrow> int \<Rightarrow> uri option \<Rightarrow> world \<Rightarrow> ful_state \<times> world" where
  "fulfilment c rid part u w = (FulNew c rid part u, w)"

text \<open>
  \<^verbatim>\<open>for block in imap(to_content_block_entity, response.content_blocks): yield block\<close>:
  \<^verbatim>\<open>imap\<close> converts one block per step, when the loop asks for it.
\<close>

fun ful_loop :: "env \<Rightarrow> content_block11 list \<Rightarrow> world \<Rightarrow> outcome \<times> ful_state \<times> world" where
  "ful_loop e [] w = (StopIteration, FulFinished, w)"
| "ful_loop e (b # bs) w =
     (case to_content_block_entity e b of
        Inl err \<Rightarrow> (Raise err, FulFinished, w)
      | Inr entity \<Rightarrow> (Yield entity, FulBlocks bs, w))"

text \<open>\<^verbatim>\<open>next()\<close> on a \<^verbatim>\<open>fulfilment\<close> generator.\<close>

fun fulfilment_next :: "env \<Rightarrow> ful_state \<Rightarrow> world \<Rightarrow> outcome \<times> ful_state \<times> world" where
  "fulfilment_next e (FulNew c rid part u) w =
     (let (mid, w1) = generate_id w;
          request = PollFulfillmentRequest
                      \<lparr>fr_message_id = mid, fr_collection_name = c,
                       fr_result_id = rid, fr_result_part_number = part\<rparr>;
          (res, w2) = execute e request u SVC_POLL w1
      in case res of
           Inl err \<Rightarrow> (Raise err, FulFinished, w2)
         | Inr (StatusMessage s) \<Rightarrow> (Raise AttributeError, FulFinished, w2)
         | Inr (PollResponse response) \<Rightarrow> ful_loop e (content_blocks response) w2)"
| "fulfilment_next e (FulBlocks bs) w = ful_loop e bs w"
| "fulfilment_next e FulFinished w = (StopIteration, FulFinished, w)"

text \<open>
  The control states of a \<^verbatim>\<open>poll\<close> generator:
  \<^item> \<open>PollNew\<close>: created, body not started;
  \<^item> \<open>PollBlocks a response bs\<close>: in the first \<^verbatim>\<open>for\<close> loop, \<open>bs\<close> the blocks of the
    initial response not converted yet;
  \<^item> \<open>PollWhile a response\<close>: at the test of \<^verbatim>\<open>while response.more\<close>;
  \<^item> \<open>PollFulfil a response g\<close>: in the \<^verbatim>\<open>for\<close> loop of the \<^verbatim>\<open>while\<close> body, over the
    fulfilment generator \<open>g\<close>;
  \<^item> \<open>PollFinished\<close>: returned or raised.
  \<open>response\<close> is the local variable of \<^verbatim>\<open>poll\<close>: it is assigned once, from the initial
  poll request, and the \<^verbatim>\<open>while\<close> loop never assigns it again (the response of a
  fulfilment request is a local variable of \<^verbatim>\<open>fulfilment\<close>).
\<close>

datatype poll_state =
    PollNew poll_args
  | PollBlocks poll_args poll_response "content_block11 list"
  | PollWhile poll_args poll_response
  | PollFulfil poll_args poll_response ful_state
  | PollFinished

text \<open>The call \<^verbatim>\<open>poll(collection_name, begin_date, ...)\<close>.\<close>

definition poll :: "poll_args \<Rightarrow> world \<Rightarrow> poll_state \<times> world" where
  "poll a w = (PollNew a, w)"

text \<open>
  One stretch of the body of \<^verbatim>\<open>poll\<close>, from a control state to the next one. The outcome
  is \<open>None\<close> when the body goes on without handing anything to the consumer.
\<close>

fun poll_step :: "env \<Rightarrow> poll_state \<Rightarrow> world \<Rightarrow> outcome option \<times> poll_state \<times> world" where
  "poll_step e (PollNew a) w =
     (let (mid, w1) = generate_id w;
          request = PollRequest (build_poll_request e mid a);
          (res, w2) = execute e request (uri a) SVC_POLL w1
      in case res of
           Inl err \<Rightarrow> (Some (Raise err), PollFinished, w2)
         | Inr (StatusMessage s) \<Rightarrow> (Some (Raise AttributeError), PollFinished, w2)
         | Inr (PollResponse response) \<Rightarrow> (None, PollBlocks a response (content_blocks response), w2))"
| "poll_step e (PollBlocks a response []) w = (None, PollWhile a response, w)"
| "poll_step e (PollBlocks a response (b # bs)) w =
     (case to_content_block_entity e b of
        Inl err \<Rightarrow> (Some (Raise err), PollFinished, w)
      | Inr entity \<Rightarrow> (Some (Yield entity), PollBlocks a response bs, w))"
| "poll_step e (PollWhile a response) w =
     (if more_flag response
      then (let part = result_part_number response + 1;
                (g, w1) = fulfilment (collection_name a) (result_id response) part (uri a) w
            in (None, PollFulfil a response g, w1))
      else (Some StopIteration, PollFinished, w))"
| "poll_step e (PollFulfil a response g) w =
     (case fulfilment_next e g w of
        (Yield block, g', w') \<Rightarrow> (Some (Yield block), PollFulfil a response g', w')
      | (Raise err, g', w') \<Rightarrow> (Some (Raise err), PollFinished, w')
      | (StopIteration, g', w') \<Rightarrow> (None, PollWhile a response, w'))"
| "poll_step e PollFinished w = (Some StopIteration, PollFinished, w)"

text \<open>
  \<^verbatim>\<open>next()\<close> on a \<^verbatim>\<open>poll\<close> generator: the body runs until it has an outcome for the
  consumer. Fulfilment responses without blocks can keep it running for ever, so the
  stretches are counted: \<open>None\<close> when \<open>fuel\<close> stretches did not reach an outcome.
\<close>

fun poll_next :: "env \<Rightarrow> nat \<Rightarrow> poll_state \<Rightarrow> world \<Rightarrow> (outcome \<times> poll_state \<times> world) option" where
  "poll_next e 0 st w = None"
| "poll_next e (Suc fuel) st w =
     (case poll_step e st w of
        (Some out, st', w') \<Rightarrow> Some (out, st', w')
      | (None, st', w') \<Rightarrow> poll_next e fuel st' w')"

text \<open>A consumer that calls \<^verbatim>\<open>next()\<close> \<open>k\<close> times, and what it receives.\<close>

fun poll_take :: "env \<Rightarrow> nat \<Rightarrow> nat \<Rightarrow> poll_state \<Rightarrow> world \<Rightarrow> (outcome list \<times> poll_state \<times> world) option" where
  "poll_take e fuel 0 st w = Some ([], st, w)"
| "poll_take e fuel (Suc k) st w =
     (case poll_next e fuel st w of
        None \<Rightarrow> None
      | Some (out, st', w') \<Rightarrow>
          (case poll_take e fuel k st' w' of
             None \<Rightarrow> None
           | Some (outs, st'', w'') \<Rightarrow> Some (out # outs, st'', w'')))"

fun fulfilment_take :: "env \<Rightarrow> nat \<Rightarrow> ful_state \<Rightarrow> world \<Rightarrow> outcome list \<times> ful_state \<times> world" where
  "fulfilment_take e 0 g w = ([], g, w)"
| "fulfilment_take e (Suc k) g w =
     (case fulfilment_next e g w of
        (out, g', w') \<Rightarrow>
          (case fulfilment_take e k g' w' of
             (outs, g'', w'') \<Rightarrow> (out # outs, g'', w'')))"

text \<open>
  The blocks of the response in hand that the generator has not handed over yet: what
  is left for \<^verbatim>\<open>imap\<close> in the loop the generator is suspended in.
\<close>

fun pending :: "poll_state \<Rightarrow> content_block11 list" where
  "pending (PollBlocks a response bs) = bs"
| "pending (PollFulfil a response (FulBlocks bs)) = bs"
| "pending st = []"

subsection \<open>A concrete server\<close>

text \<open>
  Sample collaborators, for evaluating the operations on concrete inputs. The converter
  passes content, binding and timestamp through; the helpers pack a string as a binding
  without subtypes.
\<close>

definition sample_convert :: "content_block11 \<Rightarrow> error + content_block_entity" where
  "sample_convert b =
     Inr \<lparr>en_content = content b, en_binding = content_binding b, en_timestamp = timestamp_label b\<rparr>"

fun sample_pack_binding :: "binding_arg \<Rightarrow> content_binding11" where
  "sample_pack_binding (BindingId s) = ContentBinding11 s []"
| "sample_pack_binding (BindingEntity s subtypes) = ContentBinding11 s subtypes"

fun sample_pack_bindings :: "binding_arg list option \<Rightarrow> content_binding11 list" where
  "sample_pack_bindings None = []"
| "sample_pack_bindings (Some bs) = map sample_pack_binding bs"

definition block_a :: content_block11 where
  "block_a = \<lparr>content = ''a'', content_binding = ContentBinding11 ''urn:test'' [], timestamp_label = 1\<rparr>"

definition block_b :: content_block11 where
  "block_b = \<lparr>content = ''b'', content_binding = ContentBinding11 ''urn:test'' [], timestamp_label = 2\<rparr>"

definition block_c :: content_block11 where
  "block_c = \<lparr>content = ''c'', content_binding = ContentBinding11 ''urn:test'' [], timestamp_label = 3\<rparr>"

definition entity_a :: content_block_entity where
  "entity_a = \<lparr>en_content = ''a'', en_binding = ContentBinding11 ''urn:test'' [], en_timestamp = 1\<rparr>"

definition entity_b :: content_block_entity where
  "entity_b = \<lparr>en_content = ''b'', en_binding = ContentBinding11 ''urn:test'' [], en_timestamp = 2\<rparr>"

definition entity_c :: content_block_entity where
  "entity_c = \<lparr>en_content = ''c'', en_binding = ContentBinding11 ''urn:test'' [], en_timestamp = 3\<rparr>"

text \<open>
  A poll service with a result set \<^verbatim>\<open>r1\<close> of two parts: the poll request is answered
  with part 1 (block a, \<^verbatim>\<open>more = true\<close>), a fulfilment request for part 2 with part 2
  (blocks b and c, \<^verbatim>\<open>more = false\<close>), and a request for any other part is refused. An
  inbox message is answered with a success status.
\<close>

fun two_part_server :: "exchange list \<Rightarrow> request \<Rightarrow> uri option \<Rightarrow> service_type \<Rightarrow> error + response" where
  "two_part_server log (PollRequest r) u s =
     Inr (PollResponse \<lparr>content_blocks = [block_a], more_flag = True,
                        result_id = ''r1'', result_part_number = 1\<rparr>)"
| "two_part_server log (PollFulfillmentRequest r) u s =
     (if fr_result_id r = ''r1'' \<and> fr_result_part_number r = 2
      then Inr (PollResponse \<lparr>content_blocks = [block_b, block_c], more_flag = False,
                              result_id = ''r1'', result_part_number = 2\<rparr>)
      else Inl (UnsuccessfulStatusError ''NOT_FOUND''))"
| "two_part_server log (InboxMessage m) u s = Inr (StatusMessage ''SUCCESS'')"

definition two_part_env :: env where
  "two_part_env = \<lparr>execute_request = two_part_server,
                    to_content_block_entity = sample_convert,
                    pack_content_bindings = sample_pack_bindings,
                    pack_content_binding = sample_pack_binding,
                    get_utc_now = 100\<rparr>"

text \<open>The same service when every fulfilment request fails in transport.\<close>

fun failing_server :: "exchange list \<Rightarrow> request \<Rightarrow> uri option \<Rightarrow> service_type \<Rightarrow> error + response" where
  "failing_server log (PollFulfillmentRequest r) u s = Inl (TransportError ''timeout'')"
| "failing_server log request u s = two_part_server log request u s"

definition failing_env :: env where
  "failing_env = \<lparr>execute_request = failing_server,
                   to_content_block_entity = sample_convert,
                   pack_content_bindings = sample_pack_bindings,
                   pack_content_binding = sample_pack_binding,
                   get_utc_now = 100\<rparr>"

definition world0 :: world where
  "world0 = \<lparr>ids_generated = 0, requests = []\<rparr>"

text \<open>\<^verbatim>\<open>poll('feed')\<close>, every other argument at its default.\<close>

definition feed_args :: poll_args where
  "feed_args = \<lparr>collection_name = ''feed'', begin_date = None, end_date = None,
                 count_only = False, subscription_id = None, inbox_service = None,
                 content_bindings = None, uri = None\<rparr>"

text \<open>\<^verbatim>\<open>poll('feed', begin_date=10, end_date=20, subscription_id='sub-1')\<close>.\<close>

definition subscribed_args :: poll_args where
  "subscribed_args = \<lparr>collection_name = ''feed'', begin_date = Some 10, end_date = Some 20,
                       count_only = False, subscription_id = Some ''sub-1'', inbox_service = None,
                       content_bindings = None, uri = None\<rparr>"

text \<open>
  A converter that refuses a block without content, as the conversion layer does for a
  missing required field, and a block it refuses.
\<close>

definition strict_convert :: "content_block11 \<Rightarrow> error + content_block_entity" where
  "strict_convert b = (if content b = [] then Inl (ConversionError ''content'') else sample_convert b)"

definition block_bad :: content_block11 where
  "block_bad = \<lparr>content = [], content_binding = ContentBinding11 ''urn:test'' [], timestamp_label = 4\<rparr>"

text \<open>
  The two-part poll service when part 2 holds block b, the block without content and
  block c, in that order.
\<close>

fun bad_block_server :: "exchange list \<Rightarrow> request \<Rightarrow> uri option \<Rightarrow> service_type \<Rightarrow> error + response" where
  "bad_block_server log (PollFulfillmentRequest r) u s =
     (if fr_result_id r = ''r1'' \<and> fr_result_part_number r = 2
      then Inr (PollResponse \<lparr>content_blocks = [block_b, block_bad, block_c], more_flag = False,
                              result_id = ''r1'', result_part_number = 2\<rparr>)
      else Inl (UnsuccessfulStatusError ''NOT_FOUND''))"
| "bad_block_server log request u s = two_part_server log request u s"

definition bad_block_env :: env where
  "bad_block_env = \<lparr>execute_request = bad_block_server,
                     to_content_block_entity = strict_convert,
                     pack_content_bindings = sample_pack_bindings,
                     pack_content_binding = sample_pack_binding,
                     get_utc_now = 100\<rparr>"

text \<open>
  The control states inside the loops of \<^verbatim>\<open>poll\<close> in which the local variable
  \<^verbatim>\<open>response\<close> holds \<open>r\<close>.
\<close>

fun looping :: "poll_response \<Rightarrow> poll_state \<Rightarrow> bool" where
  "looping r (PollBlocks a response bs) = (response = r)"
| "looping r (PollWhile a response) = (response = r)"
| "looping r (PollFulfil a response g) = (response = r)"
| "looping r st = False"

section \<open>Properties\<close>

lemmas sample_defs = two_part_env_def failing_env_def feed_args_def subscribed_args_def world0_def
  sample_convert_def block_a_def block_b_def block_c_def entity_a_def entity_b_def entity_c_def

lemmas op_defs = generate_id_def execute_def fulfilment_def poll_def build_poll_request_def
  build_poll_parameters_def truthy_def

subsection \<open>The consumer's sequence grows at its end\<close>

lemma poll_take_snoc:
  "poll_take e fuel k st0 w0 = Some (outs, st, w) \<Longrightarrow>
   poll_next e fuel st w = Some (out, st', w') \<Longrightarrow>
   poll_take e fuel (Suc k) st0 w0 = Some (outs @ [out], st', w')"
proof (induction k arbitrary: st0 w0 outs)
  case 0
  then show ?case by simp
next
  case (Suc k)
  from Suc.prems(1) obtain o1 s1 w1 outs1 where
    n1: "poll_next e fuel st0 w0 = Some (o1, s1, w1)" and
    t1: "poll_take e fuel k s1 w1 = Some (outs1, st, w)" and
    o: "outs = o1 # outs1"
    by (auto split: option.splits prod.splits)
  from Suc.IH[OF t1 Suc.prems(2)] have "poll_take e fuel (Suc k) s1 w1 = Some (outs1 @ [out], st', w')" .
  with n1 o show ?case by simp
qed

lemma poll_take_append:
  "poll_take e fuel k st0 w0 = Some (outs, st, w) \<Longrightarrow>
   poll_take e fuel j st w = Some (outs2, st2, w2) \<Longrightarrow>
   poll_take e fuel (k + j) st0 w0 = Some (outs @ outs2, st2, w2)"
proof (induction k arbitrary: st0 w0 outs)
  case 0
  then show ?case by simp
next
  case (Suc k)
  from Suc.prems(1) obtain o1 s1 w1 outs1 where
    n1: "poll_next e fuel st0 w0 = Some (o1, s1, w1)" and
    t1: "poll_take e fuel k s1 w1 = Some (outs1, st, w)" and
    o: "outs = o1 # outs1"
    by (auto split: option.splits prod.splits)
  from Suc.IH[OF t1 Suc.prems(2)] n1 o show ?case by simp
qed

lemma poll_take_cons:
  "poll_next e fuel st w = Some (out, s1, w1) \<Longrightarrow>
   poll_take e fuel j s1 w1 = Some (outs, st', w') \<Longrightarrow>
   poll_take e fuel (Suc j) st w = Some (out # outs, st', w')"
  by simp

subsection \<open>The request of \<^verbatim>\<open>poll\<close>\<close>

text \<open>
  C10. \<^verbatim>\<open>if subscription_id:\<close> tests truthiness: with the empty string as subscription
  id, the poll request is the request built when the subscription id is omitted. It
  carries no subscription id, it carries the poll parameters, and the first stretch of
  the generator leaves the same world (the same request sent) in both cases.
\<close>

theorem poll_empty_subscription_id_is_adhoc:
  "build_poll_request e mid (a\<lparr>subscription_id := Some ''''\<rparr>) =
     build_poll_request e mid (a\<lparr>subscription_id := None\<rparr>)
   \<and> pr_subscription_id (build_poll_request e mid (a\<lparr>subscription_id := Some ''''\<rparr>)) = None
   \<and> pr_poll_parameters (build_poll_request e mid (a\<lparr>subscription_id := Some ''''\<rparr>)) =
       Some (build_poll_parameters e a)
   \<and> snd (snd (poll_step e (fst (poll (a\<lparr>subscription_id := Some ''''\<rparr>) w)) w)) =
       snd (snd (poll_step e (fst (poll (a\<lparr>subscription_id := None\<rparr>) w)) w))"
  by (simp add: op_defs Let_def split: sum.splits response.splits)

text \<open>
  C4, as stated, fails: \<^verbatim>\<open>poll('feed', begin_date=10, end_date=20, subscription_id='sub-1')\<close>
  sends a request that carries the subscription id and the date range as well.
\<close>

theorem poll_subscription_still_sends_date_range:
  "subscription_id subscribed_args = Some ''sub-1''
   \<and> pr_subscription_id (build_poll_request two_part_env 0 subscribed_args) = Some ''sub-1''
   \<and> pr_exclusive_begin_timestamp_label (build_poll_request two_part_env 0 subscribed_args) = Some 10
   \<and> pr_inclusive_end_timestamp_label (build_poll_request two_part_env 0 subscribed_args) = Some 20"
  by (simp add: subscribed_args_def op_defs)

text \<open>
  C4, amended. With a truthy (non-empty) subscription id the poll request carries the
  subscription id and no poll parameters; otherwise it carries no subscription id and the
  poll parameters, which hold the packed content bindings and, for a count-only poll, the
  response type \<^verbatim>\<open>RT_COUNT_ONLY\<close>. The date range is part of the request in both modes.
\<close>

theorem poll_request_modes:
  "(truthy (subscription_id a) \<longrightarrow>
      pr_subscription_id (build_poll_request e mid a) = subscription_id a
      \<and> pr_poll_parameters (build_poll_request e mid a) = None)
   \<and> (\<not> truthy (subscription_id a) \<longrightarrow>
      pr_subscription_id (build_poll_request e mid a) = None
      \<and> (\<exists>p. pr_poll_parameters (build_poll_request e mid a) = Some p
            \<and> pp_content_bindings p = pack_content_bindings e (content_bindings a)
            \<and> pp_response_type p = (if count_only a then Some RT_COUNT_ONLY else None)))
   \<and> pr_exclusive_begin_timestamp_label (build_poll_request e mid a) = begin_date a
   \<and> pr_inclusive_end_timestamp_label (build_poll_request e mid a) = end_date a"
  by (simp add: build_poll_request_def build_poll_parameters_def)

theorem poll_request_modes_witness:
  "truthy (subscription_id subscribed_args)
   \<and> pr_subscription_id (build_poll_request two_part_env 0 subscribed_args) = Some ''sub-1''
   \<and> pr_poll_parameters (build_poll_request two_part_env 0 subscribed_args) = None
   \<and> \<not> truthy (subscription_id feed_args)
   \<and> pr_subscription_id (build_poll_request two_part_env 0 feed_args) = None
   \<and> pr_poll_parameters (build_poll_request two_part_env 0 feed_args) \<noteq> None"
proof -
  have s: "truthy (subscription_id subscribed_args)"
    by (simp add: truthy_def subscribed_args_def)
  have f: "\<not> truthy (subscription_id feed_args)"
    by (simp add: truthy_def feed_args_def)
  from s f poll_request_modes[of subscribed_args two_part_env 0]
    poll_request_modes[of feed_args two_part_env 0]
  show ?thesis by (auto simp: subscribed_args_def)
qed

subsection \<open>push\<close>

text \<open>
  C7, as stated, fails: the inbox service answers \<^verbatim>\<open>push(content='x', binding='urn:test')\<close>
  with a success status message, and the call evaluates to \<^verbatim>\<open>None\<close>, not to that
  acknowledgement.
\<close>

theorem push_returns_status_counterexample:
  "execute_request two_part_env []
      (InboxMessage \<lparr>im_message_id = 0,
                     im_content_blocks = [\<lparr>content = ''x'', content_binding = ContentBinding11 ''urn:test'' [],
                                           timestamp_label = 100\<rparr>],
                     destination_collection_names = []\<rparr>) None SVC_INBOX = Inr (StatusMessage ''SUCCESS'')
   \<and> push two_part_env ''x'' (BindingId ''urn:test'') None None None world0 =
       (Inr None,
        \<lparr>ids_generated = 1,
         requests = [(InboxMessage \<lparr>im_message_id = 0,
                     im_content_blocks = [\<lparr>content = ''x'', content_binding = ContentBinding11 ''urn:test'' [],
                                           timestamp_label = 100\<rparr>],
                     destination_collection_names = []\<rparr>, None, SVC_INBOX)]\<rparr>)
   \<and> fst (push two_part_env ''x'' (BindingId ''urn:test'') None None None world0) \<noteq>
       Inr (Some (StatusMessage ''SUCCESS''))"
  by (simp add: push_def two_part_env_def world0_def generate_id_def execute_def)

text \<open>
  C7, amended. When \<^verbatim>\<open>_execute_request\<close> returns for the inbox message (the server
  answered with a success status), \<^verbatim>\<open>push\<close> raises nothing and returns \<^verbatim>\<open>None\<close>; it has
  generated one identifier and sent one inbox message, holding the one content block, to
  the inbox service.
\<close>

theorem push_success_returns_none:
  assumes "execute_request e (requests w)
             (InboxMessage \<lparr>im_message_id = ids_generated w,
                im_content_blocks = [\<lparr>content = c, content_binding = pack_content_binding e b,
                   timestamp_label = (case ts of Some t \<Rightarrow> t | None \<Rightarrow> get_utc_now e)\<rparr>],
                destination_collection_names = (case names of Some ns \<Rightarrow> ns | None \<Rightarrow> [])\<rparr>)
             u SVC_INBOX = Inr resp"
  shows "push e c b names ts u w =
           (Inr None,
            w\<lparr>ids_generated := Suc (ids_generated w),
              requests := requests w @
                [(InboxMessage \<lparr>im_message_id = ids_generated w,
                    im_content_blocks = [\<lparr>content = c, content_binding = pack_content_binding e b,
                       timestamp_label = (case ts of Some t \<Rightarrow> t | None \<Rightarrow> get_utc_now e)\<rparr>],
                    destination_collection_names = (case names of Some ns \<Rightarrow> ns | None \<Rightarrow> [])\<rparr>,
                  u, SVC_INBOX)]\<rparr>)"
  using assms by (simp add: push_def generate_id_def execute_def)

theorem push_success_returns_none_witness:
  "push two_part_env ''x'' (BindingId ''urn:test'') (Some [''feed'']) (Some 7) None world0 =
     (Inr None,
      \<lparr>ids_generated = 1,
       requests = [(InboxMessage \<lparr>im_message_id = 0,
                     im_content_blocks = [\<lparr>content = ''x'', content_binding = ContentBinding11 ''urn:test'' [],
                                           timestamp_label = 7\<rparr>],
                     destination_collection_names = [''feed'']\<rparr>, None, SVC_INBOX)]\<rparr>)"
proof -
  have h: "execute_request two_part_env (requests world0)
             (InboxMessage \<lparr>im_message_id = ids_generated world0,
                im_content_blocks = [\<lparr>content = ''x'', content_binding = pack_content_binding two_part_env (BindingId ''urn:test''),
                   timestamp_label = (case Some 7 of Some t \<Rightarrow> t | None \<Rightarrow> get_utc_now two_part_env)\<rparr>],
                destination_collection_names = (case Some [''feed''] of Some ns \<Rightarrow> ns | None \<Rightarrow> [])\<rparr>)
             None SVC_INBOX = Inr (StatusMessage ''SUCCESS'')"
    by (simp add: two_part_env_def)
  from push_success_returns_none[OF h] show ?thesis
    by (simp add: two_part_env_def world0_def)
qed

subsection \<open>Pagination\<close>

text \<open>
  C1, evaluated on the two-part result set: part 1 holds block a and reports
  \<^verbatim>\<open>more = true\<close>, part 2 holds blocks b and c and reports \<^verbatim>\<open>more = false\<close>. The claim
  gives the sequence a, b, c and then its end. The generator hands over a, b, c and
  then b, c again and again: \<^verbatim>\<open>response\<close> is still the initial response, so the
  \<^verbatim>\<open>while\<close> test stays true and part 2 is fetched once more.
\<close>

theorem poll_two_parts_repeats_part_two:
  "map_option fst (poll_take two_part_env 3 7 (fst (poll feed_args world0)) world0) =
     Some [Yield entity_a, Yield entity_b, Yield entity_c, Yield entity_b, Yield entity_c,
           Yield entity_b, Yield entity_c]"
  by (simp add: sample_defs op_defs numeral_eq_Suc)

text \<open>
  C3, evaluated on the same result set: after six elements the generator has sent the
  poll request and three fulfilment requests, each of them for part 2 of \<^verbatim>\<open>r1\<close>. The
  claim gives parts 2, 3 and 4.
\<close>

theorem poll_two_parts_requests_part_two_again:
  "map_option (\<lambda>res. map fst (requests (snd (snd res))))
     (poll_take two_part_env 3 6 (fst (poll feed_args world0)) world0) =
     Some [PollRequest \<lparr>pr_message_id = 0, pr_collection_name = ''feed'',
                         pr_exclusive_begin_timestamp_label = None,
                         pr_inclusive_end_timestamp_label = None,
                         pr_subscription_id = None,
                         pr_poll_parameters = Some \<lparr>pp_content_bindings = [], pp_delivery_parameters = None,
                                                    pp_allow_asynch = None, pp_response_type = None\<rparr>\<rparr>,
           PollFulfillmentRequest \<lparr>fr_message_id = 1, fr_collection_name = ''feed'',
                                    fr_result_id = ''r1'', fr_result_part_number = 2\<rparr>,
           PollFulfillmentRequest \<lparr>fr_message_id = 2, fr_collection_name = ''feed'',
                                    fr_result_id = ''r1'', fr_result_part_number = 2\<rparr>,
           PollFulfillmentRequest \<lparr>fr_message_id = 3, fr_collection_name = ''feed'',
                                    fr_result_id = ''r1'', fr_result_part_number = 2\<rparr>]"
  by (simp add: sample_defs op_defs numeral_eq_Suc)

text \<open>
  Inside the loops of \<^verbatim>\<open>poll\<close> the variable \<^verbatim>\<open>response\<close> keeps its value: when it
  reports \<^verbatim>\<open>more = true\<close>, every stretch of the body stays inside the loops or raises.
\<close>

lemma poll_step_looping:
  assumes "more_flag r" "looping r st" "poll_step e st w = (res, st', w')"
  shows "(res = None \<and> looping r st') \<or> (\<exists>b. res = Some (Yield b) \<and> looping r st') \<or> (\<exists>err. res = Some (Raise err))"
  using assms
  by (induction e st w rule: poll_step.induct)
     (auto simp: fulfilment_def split: sum.splits prod.splits outcome.splits if_splits)

lemma poll_next_looping:
  assumes "more_flag r" "looping r st" "poll_next e fuel st w = Some (out, st', w')"
  shows "(\<exists>b. out = Yield b \<and> looping r st') \<or> (\<exists>err. out = Raise err)"
  using assms
proof (induction fuel arbitrary: st w)
  case 0
  then show ?case by simp
next
  case (Suc fuel)
  obtain res s1 w1 where st: "poll_step e st w = (res, s1, w1)" by (cases "poll_step e st w") auto
  from poll_step_looping[OF Suc.prems(1,2) st] Suc.prems(3) st Suc.IH[OF Suc.prems(1)]
  show ?case by (auto split: option.splits)
qed

lemma poll_take_looping:
  assumes "more_flag r" "looping r st" "poll_take e fuel k st w = Some (outs, st', w')"
    "\<forall>err. Raise err \<notin> set outs"
  shows "StopIteration \<notin> set outs"
  using assms
proof (induction k arbitrary: st w outs)
  case 0
  then show ?case by simp
next
  case (Suc k)
  from Suc.prems(3) obtain o1 s1 w1 outs1 where
    n1: "poll_next e fuel st w = Some (o1, s1, w1)" and
    t1: "poll_take e fuel k s1 w1 = Some (outs1, st', w')" and
    o: "outs = o1 # outs1"
    by (auto split: option.splits prod.splits)
  from poll_next_looping[OF Suc.prems(1,2) n1] Suc.prems(4) o
  obtain b where b: "o1 = Yield b" "looping r s1" by auto
  from Suc.IH[OF Suc.prems(1) b(2) t1] Suc.prems(4) o b show ?case by auto
qed

text \<open>
  C2, on the code: once the initial response reports \<^verbatim>\<open>more = true\<close>, no \<^verbatim>\<open>next()\<close> ends
  the sequence, whatever the later responses report. The only way out of the loop is an
  exception. The claim makes the sequence finite as soon as the server eventually reports
  \<^verbatim>\<open>more = false\<close>; on the two-part result set (the witness) part 2 reports it and the
  sequence does not end.
\<close>

theorem poll_more_never_ends:
  assumes first: "execute_request e (requests w) (PollRequest (build_poll_request e (ids_generated w) a))
                    (uri a) SVC_POLL = Inr (PollResponse r)"
      and more: "more_flag r"
      and taken: "poll_take e fuel k (fst (poll a w)) w = Some (outs, st', w')"
      and no_error: "\<forall>err. Raise err \<notin> set outs"
  shows "StopIteration \<notin> set outs"
proof (cases k)
  case 0
  with taken show ?thesis by simp
next
  case (Suc k')
  from taken Suc obtain o1 s1 w1 outs1 where
    n1: "poll_next e fuel (PollNew a) w = Some (o1, s1, w1)" and
    t1: "poll_take e fuel k' s1 w1 = Some (outs1, st', w')" and
    o: "outs = o1 # outs1"
    by (auto simp: poll_def split: option.splits prod.splits)
  from n1 obtain f where f: "fuel = Suc f" by (cases fuel) auto
  let ?w2 = "snd (execute e (PollRequest (build_poll_request e (ids_generated w) a)) (uri a) SVC_POLL
                 (snd (generate_id w)))"
  from first have step: "poll_step e (PollNew a) w = (None, PollBlocks a r (content_blocks r), ?w2)"
    by (simp add: generate_id_def execute_def)
  with n1 f have n2: "poll_next e f (PollBlocks a r (content_blocks r)) ?w2 = Some (o1, s1, w1)"
    by simp
  have l0: "looping r (PollBlocks a r (content_blocks r))" by simp
  from poll_next_looping[OF more l0 n2] no_error o
  obtain b where b: "o1 = Yield b" "looping r s1" by auto
  from no_error o have ne: "\<forall>err. Raise err \<notin> set outs1" by simp
  from poll_take_looping[OF more b(2) t1 ne] o b show ?thesis by simp
qed

theorem poll_more_never_ends_witness:
  "poll_take two_part_env 3 9 (fst (poll feed_args world0)) world0 \<noteq> None
   \<and> StopIteration \<notin> set (fst (the (poll_take two_part_env 3 9 (fst (poll feed_args world0)) world0)))"
proof -
  obtain outs st' w' where
    t: "poll_take two_part_env 3 9 (fst (poll feed_args world0)) world0 = Some (outs, st', w')"
    and ne: "\<forall>err. Raise err \<notin> set outs"
    by (simp add: sample_defs op_defs numeral_eq_Suc)
  have first: "execute_request two_part_env (requests world0)
                 (PollRequest (build_poll_request two_part_env (ids_generated world0) feed_args))
                 (uri feed_args) SVC_POLL =
               Inr (PollResponse \<lparr>content_blocks = [block_a], more_flag = True,
                                  result_id = ''r1'', result_part_number = 1\<rparr>)"
    by (simp add: two_part_env_def)
  have more: "more_flag \<lparr>content_blocks = [block_a], more_flag = True,
                         result_id = ''r1'', result_part_number = 1\<rparr>" by simp
  from poll_more_never_ends[OF first more t ne] t show ?thesis by simp
qed

subsection \<open>Suspended generators\<close>

lemma poll_next_pending:
  assumes "pending st = b # bs" "to_content_block_entity e b = Inr en"
  shows "\<exists>st'. poll_next e (Suc fuel) st w = Some (Yield en, st', w) \<and> pending st' = bs"
  using assms by (cases st rule: pending.cases) auto

lemma poll_take_pending:
  assumes "k \<le> length (pending st)"
      and "map (to_content_block_entity e) (take k (pending st)) = map Inr ens"
  shows "\<exists>st'. poll_take e (Suc fuel) k st w = Some (map Yield ens, st', w) \<and>
               pending st' = drop k (pending st)"
  using assms
proof (induction k arbitrary: st ens)
  case 0
  then show ?case by simp
next
  case (Suc k)
  from Suc.prems(1) obtain b bs where p: "pending st = b # bs" by (cases "pending st") auto
  with Suc.prems(2) obtain en ens' where ens: "ens = en # ens'"
    and c: "to_content_block_entity e b = Inr en"
    and rest: "map (to_content_block_entity e) (take k bs) = map Inr ens'"
    by (cases ens) auto
  from poll_next_pending[OF p c] obtain s1 where
    n: "poll_next e (Suc fuel) st w = Some (Yield en, s1, w)" and ps1: "pending s1 = bs" by blast
  from Suc.prems(1) p ps1 have le: "k \<le> length (pending s1)" by simp
  from rest ps1 have rest': "map (to_content_block_entity e) (take k (pending s1)) = map Inr ens'" by simp
  from Suc.IH[OF le rest'] obtain st' where
    t: "poll_take e (Suc fuel) k s1 w = Some (map Yield ens', st', w)" and d: "pending st' = drop k (pending s1)"
    by blast
  from n t d ens p ps1 show ?case by simp
qed

lemma poll_next_pending_world:
  assumes "pending st \<noteq> []" "poll_next e fuel st w = Some (out, st', w')"
  shows "w' = w"
proof (cases fuel)
  case 0
  with assms show ?thesis by simp
next
  case (Suc f)
  from assms(1) obtain b bs where p: "pending st = b # bs" by (cases "pending st") auto
  show ?thesis
  proof (cases "to_content_block_entity e b")
    case (Inl err)
    with p assms(2) Suc show ?thesis
      by (cases st rule: pending.cases) auto
  next
    case (Inr en)
    from poll_next_pending[OF p Inr, of f w] assms(2) Suc show ?thesis by auto
  qed
qed

lemma poll_next_at_end:
  assumes "st = PollBlocks a r [] \<or> st = PollFulfil a r (FulBlocks [])" "more_flag r"
  shows "poll_next e (Suc (Suc (Suc fuel))) st w =
         (case fulfilment_next e (FulNew (collection_name a) (result_id r) (result_part_number r + 1) (uri a)) w of
            (Yield block, g', w') \<Rightarrow> Some (Yield block, PollFulfil a r g', w')
          | (Raise err, g', w') \<Rightarrow> Some (Raise err, PollFinished, w')
          | (StopIteration, g', w') \<Rightarrow> poll_next e fuel (PollWhile a r) w')"
  using assms
  by (auto simp: fulfilment_def split: prod.splits outcome.splits)

lemma poll_conversion_failure_propagates:
  assumes "pending st = b # bs" "to_content_block_entity e b = Inl err"
  shows "poll_next e (Suc fuel) st w = Some (Raise err, PollFinished, w)"
  using assms by (cases st rule: pending.cases) auto

text \<open>
  A \<^verbatim>\<open>next()\<close> that fetches a part hands over its first block, or raises the
  converter's exception for it, and has sent the one request; the other blocks of the
  part are left pending.
\<close>

lemma poll_next_first_part:
  assumes "execute_request e (requests w) (PollRequest (build_poll_request e (ids_generated w) a))
             (uri a) SVC_POLL = Inr (PollResponse r)"
      and "content_blocks r = b # bs" "to_content_block_entity e b = Inr en"
  shows "poll_next e (Suc (Suc fuel)) (PollNew a) w =
           Some (Yield en, PollBlocks a r bs,
                 w\<lparr>ids_generated := Suc (ids_generated w),
                   requests := requests w @
                     [(PollRequest (build_poll_request e (ids_generated w) a), uri a, SVC_POLL)]\<rparr>)"
  using assms by (simp add: generate_id_def execute_def)

lemma poll_next_later_part:
  assumes "st = PollBlocks a r [] \<or> st = PollFulfil a r (FulBlocks [])" "more_flag r"
      and "execute_request e (requests w)
             (PollFulfillmentRequest \<lparr>fr_message_id = ids_generated w, fr_collection_name = collection_name a,
                fr_result_id = result_id r, fr_result_part_number = result_part_number r + 1\<rparr>)
             (uri a) SVC_POLL = Inr (PollResponse r2)"
      and "content_blocks r2 = b # bs"
  shows "poll_next e (Suc (Suc (Suc fuel))) st w =
           (case to_content_block_entity e b of
              Inr en \<Rightarrow> Some (Yield en, PollFulfil a r (FulBlocks bs),
                 w\<lparr>ids_generated := Suc (ids_generated w),
                   requests := requests w @
                     [(PollFulfillmentRequest \<lparr>fr_message_id = ids_generated w,
                         fr_collection_name = collection_name a, fr_result_id = result_id r,
                         fr_result_part_number = result_part_number r + 1\<rparr>, uri a, SVC_POLL)]\<rparr>)
            | Inl err \<Rightarrow> Some (Raise err, PollFinished,
                 w\<lparr>ids_generated := Suc (ids_generated w),
                   requests := requests w @
                     [(PollFulfillmentRequest \<lparr>fr_message_id = ids_generated w,
                         fr_collection_name = collection_name a, fr_result_id = result_id r,
                         fr_result_part_number = result_part_number r + 1\<rparr>, uri a, SVC_POLL)]\<rparr>))"
  unfolding poll_next_at_end[OF assms(1,2)] using assms(3,4)
  by (simp add: generate_id_def execute_def split: sum.splits)

lemma poll_take_then_conversion_failure:
  assumes "pending st = good @ bad # rest"
      and "map (to_content_block_entity e) good = map Inr ens"
      and "to_content_block_entity e bad = Inl err"
  shows "poll_take e (Suc fuel) (Suc (length ens)) st w =
           Some (map Yield ens @ [Raise err], PollFinished, w)"
proof -
  from assms(2) have len: "length good = length ens" by (metis length_map)
  with assms(1) have le: "length ens \<le> length (pending st)" by simp
  from assms(1,2) len have conv: "map (to_content_block_entity e) (take (length ens) (pending st)) = map Inr ens"
    by simp
  from poll_take_pending[OF le conv, of fuel w] obtain st' where
    t: "poll_take e (Suc fuel) (length ens) st w = Some (map Yield ens, st', w)"
    and p: "pending st' = drop (length ens) (pending st)" by blast
  from p assms(1) len have p': "pending st' = bad # rest" by simp
  from poll_take_snoc[OF t poll_conversion_failure_propagates[OF p' assms(3), of fuel w]]
  show ?thesis .
qed

text \<open>
  C5, as stated, fails for a conversion failure: the fulfilment response for part 2 holds
  block b, a block the converter refuses, and block c. The second \<^verbatim>\<open>next()\<close> triggers
  the fetch (it sends the fulfilment request) and hands over b; the exception is raised
  by the third \<^verbatim>\<open>next()\<close>, which sends nothing: \<^verbatim>\<open>imap\<close> converts a block when the
  loop reaches it.
\<close>

theorem poll_later_block_conversion_failure:
  "poll_take bad_block_env 3 2 (fst (poll feed_args world0)) world0 =
     Some ([Yield entity_a, Yield entity_b],
           PollFulfil feed_args
             \<lparr>content_blocks = [block_a], more_flag = True, result_id = ''r1'', result_part_number = 1\<rparr>
             (FulBlocks [block_bad, block_c]),
           \<lparr>ids_generated = 2,
            requests = [(PollRequest (build_poll_request bad_block_env 0 feed_args), None, SVC_POLL),
                        (PollFulfillmentRequest \<lparr>fr_message_id = 1, fr_collection_name = ''feed'',
                           fr_result_id = ''r1'', fr_result_part_number = 2\<rparr>, None, SVC_POLL)]\<rparr>)
   \<and> poll_take bad_block_env 3 3 (fst (poll feed_args world0)) world0 =
     Some ([Yield entity_a, Yield entity_b, Raise (ConversionError ''content'')],
           PollFinished,
           \<lparr>ids_generated = 2,
            requests = [(PollRequest (build_poll_request bad_block_env 0 feed_args), None, SVC_POLL),
                        (PollFulfillmentRequest \<lparr>fr_message_id = 1, fr_collection_name = ''feed'',
                           fr_result_id = ''r1'', fr_result_part_number = 2\<rparr>, None, SVC_POLL)]\<rparr>)"
  by (simp add: bad_block_env_def strict_convert_def block_bad_def sample_defs op_defs numeral_eq_Suc)

text \<open>
  C5, amended. The consumer has made \<open>k\<close> calls of \<^verbatim>\<open>next()\<close> on the generator of
  \<^verbatim>\<open>poll\<close> and received \<open>outs\<close>; the part in hand is handed over and \<^verbatim>\<open>response.more\<close>
  is true, so the following \<^verbatim>\<open>next()\<close> fetches a part.
  \<^item> When \<^verbatim>\<open>_execute_request\<close> raises \<open>err\<close> (an unsuccessful status, a transport
    failure), that very call raises \<open>err\<close> to the consumer.
  \<^item> When the part arrives and the converter raises \<open>err\<close> on one of its blocks, the
    blocks before it are handed over in order (\<open>ens\<close>), and the \<^verbatim>\<open>next()\<close> that reaches
    the failing block raises \<open>err\<close>: the call that fetched the part when that block is
    its first one, a later call otherwise.
  In both cases the consumer has then received \<open>outs\<close>, unchanged, the blocks \<open>ens\<close>
  and the exception; the generator is finished, and the fulfilment request is the only
  request sent since.
\<close>

theorem poll_failure_propagates:
  assumes taken: "poll_take e fuel k (fst (poll a w0)) w0 = Some (outs, st, w)"
      and at_end: "st = PollBlocks a r [] \<or> st = PollFulfil a r (FulBlocks [])"
      and more: "more_flag r"
      and fuel: "3 \<le> fuel"
      and fails:
        "(execute_request e (requests w)
            (PollFulfillmentRequest \<lparr>fr_message_id = ids_generated w, fr_collection_name = collection_name a,
               fr_result_id = result_id r, fr_result_part_number = result_part_number r + 1\<rparr>)
            (uri a) SVC_POLL = Inl err \<and> ens = [])
         \<or> (\<exists>r2 good bad rest.
              execute_request e (requests w)
                (PollFulfillmentRequest \<lparr>fr_message_id = ids_generated w, fr_collection_name = collection_name a,
                   fr_result_id = result_id r, fr_result_part_number = result_part_number r + 1\<rparr>)
                (uri a) SVC_POLL = Inr (PollResponse r2)
              \<and> content_blocks r2 = good @ bad # rest
              \<and> map (to_content_block_entity e) good = map Inr ens
              \<and> to_content_block_entity e bad = Inl err)"
  shows "poll_take e fuel (k + Suc (length ens)) (fst (poll a w0)) w0 =
           Some (outs @ map Yield ens @ [Raise err], PollFinished,
                 w\<lparr>ids_generated := Suc (ids_generated w),
                   requests := requests w @
                     [(PollFulfillmentRequest \<lparr>fr_message_id = ids_generated w,
                         fr_collection_name = collection_name a, fr_result_id = result_id r,
                         fr_result_part_number = result_part_number r + 1\<rparr>, uri a, SVC_POLL)]\<rparr>)"
proof -
  let ?req = "PollFulfillmentRequest \<lparr>fr_message_id = ids_generated w,
                         fr_collection_name = collection_name a, fr_result_id = result_id r,
                         fr_result_part_number = result_part_number r + 1\<rparr>"
  let ?w' = "w\<lparr>ids_generated := Suc (ids_generated w),
                   requests := requests w @ [(?req, uri a, SVC_POLL)]\<rparr>"
  from fuel obtain f where f: "fuel = Suc (Suc (Suc f))"
    by (metis Suc_le_D Suc_le_mono numeral_3_eq_3)
  have "poll_take e fuel (Suc (length ens)) st w = Some (map Yield ens @ [Raise err], PollFinished, ?w')"
    using fails
  proof (elim disjE conjE exE)
    assume ex: "execute_request e (requests w) ?req (uri a) SVC_POLL = Inl err" and ens: "ens = []"
    from ex have ful: "fulfilment_next e
        (FulNew (collection_name a) (result_id r) (result_part_number r + 1) (uri a)) w =
        (Raise err, FulFinished, ?w')"
      by (simp add: generate_id_def execute_def)
    have "poll_next e fuel st w = Some (Raise err, PollFinished, ?w')"
      unfolding f poll_next_at_end[OF at_end more] ful by simp
    with ens show ?thesis by simp
  next
    fix r2 good bad rest
    assume ex: "execute_request e (requests w) ?req (uri a) SVC_POLL = Inr (PollResponse r2)"
      and blocks: "content_blocks r2 = good @ bad # rest"
      and conv: "map (to_content_block_entity e) good = map Inr ens"
      and bad: "to_content_block_entity e bad = Inl err"
    show ?thesis
    proof (cases good)
      case Nil
      with conv have ens: "ens = []" by simp
      from blocks Nil have b: "content_blocks r2 = bad # rest" by simp
      from poll_next_later_part[OF at_end more ex b, of f] bad f
      have "poll_next e fuel st w = Some (Raise err, PollFinished, ?w')" by simp
      with ens show ?thesis by simp
    next
      case (Cons g gs)
      with conv obtain en ens' where ens: "ens = en # ens'"
        and cg: "to_content_block_entity e g = Inr en"
        and cgs: "map (to_content_block_entity e) gs = map Inr ens'" by (cases ens) auto
      from blocks Cons have b: "content_blocks r2 = g # (gs @ bad # rest)" by simp
      from poll_next_later_part[OF at_end more ex b, of f] cg f
      have n: "poll_next e fuel st w = Some (Yield en, PollFulfil a r (FulBlocks (gs @ bad # rest)), ?w')"
        by simp
      have p: "pending (PollFulfil a r (FulBlocks (gs @ bad # rest))) = gs @ bad # rest" by simp
      from poll_take_then_conversion_failure[OF p cgs bad, of "Suc (Suc f)" ?w'] f
      have t: "poll_take e fuel (Suc (length ens')) (PollFulfil a r (FulBlocks (gs @ bad # rest))) ?w' =
                 Some (map Yield ens' @ [Raise err], PollFinished, ?w')" by simp
      from poll_take_cons[OF n t] ens show ?thesis by simp
    qed
  qed
  from poll_take_append[OF taken this] show ?thesis .
qed

theorem poll_failure_propagates_witness:
  "poll_take failing_env 3 (1 + Suc (length ([] :: content_block_entity list))) (fst (poll feed_args world0)) world0 =
     Some ([Yield entity_a, Raise (TransportError ''timeout'')], PollFinished,
           \<lparr>ids_generated = 2,
            requests = [(PollRequest (build_poll_request failing_env 0 feed_args), None, SVC_POLL),
                        (PollFulfillmentRequest \<lparr>fr_message_id = 1, fr_collection_name = ''feed'',
                           fr_result_id = ''r1'', fr_result_part_number = 2\<rparr>, None, SVC_POLL)]\<rparr>)
   \<and> poll_take bad_block_env 3 (1 + Suc (length [entity_b])) (fst (poll feed_args world0)) world0 =
     Some ([Yield entity_a, Yield entity_b, Raise (ConversionError ''content'')], PollFinished,
           \<lparr>ids_generated = 2,
            requests = [(PollRequest (build_poll_request bad_block_env 0 feed_args), None, SVC_POLL),
                        (PollFulfillmentRequest \<lparr>fr_message_id = 1, fr_collection_name = ''feed'',
                           fr_result_id = ''r1'', fr_result_part_number = 2\<rparr>, None, SVC_POLL)]\<rparr>)"
proof -
  let ?r = "\<lparr>content_blocks = [block_a], more_flag = True, result_id = ''r1'', result_part_number = 1\<rparr>"
  let ?st = "PollBlocks feed_args ?r []"
  have at_end: "?st = PollBlocks feed_args ?r [] \<or> ?st = PollFulfil feed_args ?r (FulBlocks [])" by simp
  have more: "more_flag ?r" by simp
  have fuel: "(3::nat) \<le> 3" by simp
  let ?w1 = "\<lparr>ids_generated = 1,
             requests = [(PollRequest (build_poll_request failing_env 0 feed_args), None, SVC_POLL)]\<rparr>"
  have taken1: "poll_take failing_env 3 1 (fst (poll feed_args world0)) world0 =
                 Some ([Yield entity_a], ?st, ?w1)"
    by (simp add: sample_defs op_defs numeral_eq_Suc)
  have fails1: "(execute_request failing_env (requests ?w1)
           (PollFulfillmentRequest \<lparr>fr_message_id = ids_generated ?w1, fr_collection_name = collection_name feed_args,
              fr_result_id = result_id ?r, fr_result_part_number = result_part_number ?r + 1\<rparr>)
           (uri feed_args) SVC_POLL = Inl (TransportError ''timeout'') \<and> ([] :: content_block_entity list) = [])
         \<or> (\<exists>r2 good bad rest.
              execute_request failing_env (requests ?w1)
                (PollFulfillmentRequest \<lparr>fr_message_id = ids_generated ?w1, fr_collection_name = collection_name feed_args,
                   fr_result_id = result_id ?r, fr_result_part_number = result_part_number ?r + 1\<rparr>)
                (uri feed_args) SVC_POLL = Inr (PollResponse r2)
              \<and> content_blocks r2 = good @ bad # rest
              \<and> map (to_content_block_entity failing_env) good = map Inr []
              \<and> to_content_block_entity failing_env bad = Inl (TransportError ''timeout''))"
    by (simp add: failing_env_def)
  let ?w2 = "\<lparr>ids_generated = 1,
             requests = [(PollRequest (build_poll_request bad_block_env 0 feed_args), None, SVC_POLL)]\<rparr>"
  let ?r2 = "\<lparr>content_blocks = [block_b, block_bad, block_c], more_flag = False,
                              result_id = ''r1'', result_part_number = 2\<rparr>"
  have taken2: "poll_take bad_block_env 3 1 (fst (poll feed_args world0)) world0 =
                 Some ([Yield entity_a], ?st, ?w2)"
    by (simp add: bad_block_env_def strict_convert_def sample_defs op_defs numeral_eq_Suc)
  have "execute_request bad_block_env (requests ?w2)
                (PollFulfillmentRequest \<lparr>fr_message_id = ids_generated ?w2, fr_collection_name = collection_name feed_args,
                   fr_result_id = result_id ?r, fr_result_part_number = result_part_number ?r + 1\<rparr>)
                (uri feed_args) SVC_POLL = Inr (PollResponse ?r2)
              \<and> content_blocks ?r2 = [block_b] @ block_bad # [block_c]
              \<and> map (to_content_block_entity bad_block_env) [block_b] = map Inr [entity_b]
              \<and> to_content_block_entity bad_block_env block_bad = Inl (ConversionError ''content'')"
    by (simp add: bad_block_env_def strict_convert_def block_bad_def sample_defs)
  then have fails2: "(execute_request bad_block_env (requests ?w2)
           (PollFulfillmentRequest \<lparr>fr_message_id = ids_generated ?w2, fr_collection_name = collection_name feed_args,
              fr_result_id = result_id ?r, fr_result_part_number = result_part_number ?r + 1\<rparr>)
           (uri feed_args) SVC_POLL = Inl (ConversionError ''content'') \<and> [entity_b] = [])
         \<or> (\<exists>r2 good bad rest.
              execute_request bad_block_env (requests ?w2)
                (PollFulfillmentRequest \<lparr>fr_message_id = ids_generated ?w2, fr_collection_name = collection_name feed_args,
                   fr_result_id = result_id ?r, fr_result_part_number = result_part_number ?r + 1\<rparr>)
                (uri feed_args) SVC_POLL = Inr (PollResponse r2)
              \<and> content_blocks r2 = good @ bad # rest
              \<and> map (to_content_block_entity bad_block_env) good = map Inr [entity_b]
              \<and> to_content_block_entity bad_block_env bad = Inl (ConversionError ''content''))"
    by blast
  from poll_failure_propagates[OF taken1 at_end more fuel fails1]
       poll_failure_propagates[OF taken2 at_end more fuel fails2]
  show ?thesis by (simp add: feed_args_def numeral_2_eq_2 del: poll_take.simps)
qed

text \<open>
  C6. The consumer has made \<open>k\<close> calls of \<^verbatim>\<open>next()\<close> on the generator of \<^verbatim>\<open>poll\<close>, and
  the following call issues a request: the poll request when the generator is new, a
  fulfilment request when the part in hand is handed over and \<^verbatim>\<open>response.more\<close> is
  true. The server answers with a response whose blocks convert to \<open>ens\<close>. Then for
  every \<open>j\<close> from 1 to the number of those blocks, after \<open>k + j\<close> calls the consumer has
  received, after what it had, the first \<open>j\<close> blocks of that response in the order of
  the response, and the world holds that one request more and nothing else: no request
  for a further part is issued while blocks of the response are left to hand over, nor
  by the call that hands over the last of them, so a consumer that stops there causes
  none. And whatever its state, a \<^verbatim>\<open>next()\<close> that changes the world (it issues a
  request) starts with no block pending.
\<close>

theorem poll_part_yielded_before_next_request:
  assumes taken: "poll_take e fuel k (fst (poll a w0)) w0 = Some (outs, st, w)"
      and fetch:
        "(st = PollNew a \<and> request = PollRequest (build_poll_request e (ids_generated w) a))
         \<or> ((st = PollBlocks a r [] \<or> st = PollFulfil a r (FulBlocks [])) \<and> more_flag r
             \<and> request = PollFulfillmentRequest
                   \<lparr>fr_message_id = ids_generated w, fr_collection_name = collection_name a,
                    fr_result_id = result_id r, fr_result_part_number = result_part_number r + 1\<rparr>)"
      and answer: "execute_request e (requests w) request (uri a) SVC_POLL = Inr (PollResponse r2)"
      and conv: "map (to_content_block_entity e) (content_blocks r2) = map Inr ens"
      and j: "0 < j" "j \<le> length ens"
      and fuel: "3 \<le> fuel"
  shows "(\<exists>st'. poll_take e fuel (k + j) (fst (poll a w0)) w0 =
                  Some (outs @ map Yield (take j ens), st',
                        w\<lparr>ids_generated := Suc (ids_generated w),
                          requests := requests w @ [(request, uri a, SVC_POLL)]\<rparr>)
               \<and> pending st' = drop j (content_blocks r2))
         \<and> (\<forall>n s1 w1 out s2 w2.
               poll_next e n s1 w1 = Some (out, s2, w2) \<and> w2 \<noteq> w1 \<longrightarrow> pending s1 = [])"
proof
  let ?w' = "w\<lparr>ids_generated := Suc (ids_generated w),
               requests := requests w @ [(request, uri a, SVC_POLL)]\<rparr>"
  from fuel obtain f where f: "fuel = Suc (Suc (Suc f))"
    by (metis Suc_le_D Suc_le_mono numeral_3_eq_3)
  from j obtain j' where j': "j = Suc j'" by (cases j) auto
  from conv have len: "length (content_blocks r2) = length ens" by (metis length_map)
  with j j' obtain b bs where blocks: "content_blocks r2 = b # bs" by (cases "content_blocks r2") auto
  with conv obtain en ens' where ens: "ens = en # ens'"
    and cb: "to_content_block_entity e b = Inr en"
    and cbs: "map (to_content_block_entity e) bs = map Inr ens'" by (cases ens) auto
  from fetch consider
      (first) "st = PollNew a" "request = PollRequest (build_poll_request e (ids_generated w) a)"
    | (later) "st = PollBlocks a r [] \<or> st = PollFulfil a r (FulBlocks [])" "more_flag r"
        "request = PollFulfillmentRequest
                   \<lparr>fr_message_id = ids_generated w, fr_collection_name = collection_name a,
                    fr_result_id = result_id r, fr_result_part_number = result_part_number r + 1\<rparr>"
    by blast
  then have "\<exists>s1. poll_next e fuel st w = Some (Yield en, s1, ?w') \<and> pending s1 = bs"
  proof cases
    case first
    with poll_next_first_part[OF _ blocks cb, of w a "Suc f"] answer f show ?thesis by simp
  next
    case later
    from poll_next_later_part[OF later(1,2) answer[unfolded later(3)] blocks, of f] cb f later(3)
    show ?thesis by simp
  qed
  then obtain s1 where n: "poll_next e fuel st w = Some (Yield en, s1, ?w')" and p1: "pending s1 = bs"
    by blast
  from j j' ens have le: "j' \<le> length (pending s1)" using len blocks p1 by simp
  from cbs p1 have conv': "map (to_content_block_entity e) (take j' (pending s1)) = map Inr (take j' ens')"
    by (simp add: take_map[symmetric])
  from poll_take_pending[OF le conv', of "Suc (Suc f)" ?w'] f obtain st' where
    t: "poll_take e fuel j' s1 ?w' = Some (map Yield (take j' ens'), st', ?w')"
    and p: "pending st' = drop j' (pending s1)" by auto
  from poll_take_cons[OF n t] have "poll_take e fuel j st w = Some (map Yield (take j ens), st', ?w')"
    using j' ens by simp
  from poll_take_append[OF taken this] p p1 blocks j'
  show "\<exists>st'. poll_take e fuel (k + j) (fst (poll a w0)) w0 =
                  Some (outs @ map Yield (take j ens), st', ?w')
               \<and> pending st' = drop j (content_blocks r2)" by auto
next
  show "\<forall>n s1 w1 out s2 w2.
               poll_next e n s1 w1 = Some (out, s2, w2) \<and> w2 \<noteq> w1 \<longrightarrow> pending s1 = []"
    using poll_next_pending_world by blast
qed

theorem poll_part_yielded_before_next_request_witness:
  "poll_take two_part_env 3 (0 + 1) (fst (poll feed_args world0)) world0 =
     Some ([Yield entity_a],
           PollBlocks feed_args
             \<lparr>content_blocks = [block_a], more_flag = True, result_id = ''r1'', result_part_number = 1\<rparr> [],
           \<lparr>ids_generated = 1,
            requests = [(PollRequest (build_poll_request two_part_env 0 feed_args), None, SVC_POLL)]\<rparr>)
   \<and> poll_take two_part_env 3 (1 + 2) (fst (poll feed_args world0)) world0 =
     Some ([Yield entity_a, Yield entity_b, Yield entity_c],
           PollFulfil feed_args
             \<lparr>content_blocks = [block_a], more_flag = True, result_id = ''r1'', result_part_number = 1\<rparr>
             (FulBlocks []),
           \<lparr>ids_generated = 2,
            requests = [(PollRequest (build_poll_request two_part_env 0 feed_args), None, SVC_POLL),
                        (PollFulfillmentRequest \<lparr>fr_message_id = 1, fr_collection_name = ''feed'',
                           fr_result_id = ''r1'', fr_result_part_number = 2\<rparr>, None, SVC_POLL)]\<rparr>)"
proof -
  let ?r = "\<lparr>content_blocks = [block_a], more_flag = True, result_id = ''r1'', result_part_number = 1\<rparr>"
  let ?r2 = "\<lparr>content_blocks = [block_b, block_c], more_flag = False, result_id = ''r1'', result_part_number = 2\<rparr>"
  let ?w1 = "\<lparr>ids_generated = 1,
             requests = [(PollRequest (build_poll_request two_part_env 0 feed_args), None, SVC_POLL)]\<rparr>"
  let ?req1 = "PollRequest (build_poll_request two_part_env (ids_generated world0) feed_args)"
  let ?req2 = "PollFulfillmentRequest
                   \<lparr>fr_message_id = ids_generated ?w1, fr_collection_name = collection_name feed_args,
                    fr_result_id = result_id ?r, fr_result_part_number = result_part_number ?r + 1\<rparr>"
  have fuel: "(3::nat) \<le> 3" by simp
  have taken0: "poll_take two_part_env 3 0 (fst (poll feed_args world0)) world0 =
                  Some ([], PollNew feed_args, world0)" by (simp add: poll_def)
  have fetch0: "(PollNew feed_args = PollNew feed_args \<and> ?req1 = PollRequest (build_poll_request two_part_env (ids_generated world0) feed_args))
         \<or> ((PollNew feed_args = PollBlocks feed_args ?r [] \<or> PollNew feed_args = PollFulfil feed_args ?r (FulBlocks [])) \<and> more_flag ?r
             \<and> ?req1 = PollFulfillmentRequest
                   \<lparr>fr_message_id = ids_generated world0, fr_collection_name = collection_name feed_args,
                    fr_result_id = result_id ?r, fr_result_part_number = result_part_number ?r + 1\<rparr>)"
    by simp
  have answer0: "execute_request two_part_env (requests world0) ?req1 (uri feed_args) SVC_POLL = Inr (PollResponse ?r)"
    by (simp add: two_part_env_def)
  have conv0: "map (to_content_block_entity two_part_env) (content_blocks ?r) = map Inr [entity_a]"
    by (simp add: sample_defs)
  have j0: "(0::nat) < 1" "1 \<le> length [entity_a]" by simp_all
  from poll_part_yielded_before_next_request[OF taken0 fetch0 answer0 conv0 j0 fuel]
  obtain s1 where t1: "poll_take two_part_env 3 (0 + 1) (fst (poll feed_args world0)) world0 =
      Some ([] @ map Yield (take 1 [entity_a]), s1,
            world0\<lparr>ids_generated := Suc (ids_generated world0),
                   requests := requests world0 @ [(?req1, uri feed_args, SVC_POLL)]\<rparr>)"
    by blast
  have taken1: "poll_take two_part_env 3 1 (fst (poll feed_args world0)) world0 =
                  Some ([Yield entity_a], PollBlocks feed_args ?r [], ?w1)"
    by (simp add: sample_defs op_defs numeral_eq_Suc)
  have fetch1: "(PollBlocks feed_args ?r [] = PollNew feed_args \<and> ?req2 = PollRequest (build_poll_request two_part_env (ids_generated ?w1) feed_args))
         \<or> ((PollBlocks feed_args ?r [] = PollBlocks feed_args ?r [] \<or> PollBlocks feed_args ?r [] = PollFulfil feed_args ?r (FulBlocks [])) \<and> more_flag ?r
             \<and> ?req2 = PollFulfillmentRequest
                   \<lparr>fr_message_id = ids_generated ?w1, fr_collection_name = collection_name feed_args,
                    fr_result_id = result_id ?r, fr_result_part_number = result_part_number ?r + 1\<rparr>)"
    by simp
  have answer1: "execute_request two_part_env (requests ?w1) ?req2 (uri feed_args) SVC_POLL = Inr (PollResponse ?r2)"
    by (simp add: two_part_env_def feed_args_def)
  have conv1: "map (to_content_block_entity two_part_env) (content_blocks ?r2) = map Inr [entity_b, entity_c]"
    by (simp add: sample_defs)
  have j1: "(0::nat) < 2" "2 \<le> length [entity_b, entity_c]" by simp_all
  from poll_part_yielded_before_next_request[OF taken1 fetch1 answer1 conv1 j1 fuel]
  obtain s2 where t2: "poll_take two_part_env 3 (1 + 2) (fst (poll feed_args world0)) world0 =
      Some ([Yield entity_a] @ map Yield (take 2 [entity_b, entity_c]), s2,
            ?w1\<lparr>ids_generated := Suc (ids_generated ?w1),
                requests := requests ?w1 @ [(?req2, uri feed_args, SVC_POLL)]\<rparr>)"
    by blast
  have e1: "poll_take two_part_env 3 (0 + 1) (fst (poll feed_args world0)) world0 =
     Some ([Yield entity_a], PollBlocks feed_args ?r [], ?w1)"
    by (simp add: sample_defs op_defs numeral_eq_Suc)
  have e2: "map_option (fst \<circ> snd) (poll_take two_part_env 3 (1 + 2) (fst (poll feed_args world0)) world0) =
     Some (PollFulfil feed_args ?r (FulBlocks []))"
    by (simp add: sample_defs op_defs numeral_eq_Suc)
  from t1 t2 e1 e2 show ?thesis
    by (simp add: feed_args_def world0_def del: poll_take.simps)
qed

subsection \<open>fulfilment\<close>

lemma ful_loop_world: "ful_loop e bs w = (out, g', w') \<Longrightarrow> w' = w \<and> (\<forall>c rid part u. g' \<noteq> FulNew c rid part u)"
  by (cases bs) (auto split: sum.splits)

lemma fulfilment_next_started:
  assumes "\<forall>c rid part u. g \<noteq> FulNew c rid part u" "fulfilment_next e g w = (out, g', w')"
  shows "w' = w \<and> (\<forall>c rid part u. g' \<noteq> FulNew c rid part u)"
  using assms by (cases g) (auto dest: ful_loop_world)

lemma fulfilment_take_started:
  assumes "\<forall>c rid part u. g \<noteq> FulNew c rid part u"
  shows "snd (snd (fulfilment_take e k g w)) = w"
  using assms
proof (induction k arbitrary: g w)
  case 0
  then show ?case by simp
next
  case (Suc k)
  obtain out g' w' where n: "fulfilment_next e g w = (out, g', w')"
    by (cases "fulfilment_next e g w") auto
  from fulfilment_next_started[OF Suc.prems n] have w: "w' = w"
    and g: "\<forall>c rid part u. g' \<noteq> FulNew c rid part u" by auto
  from Suc.IH[OF g, of w'] n w show ?case by (cases "fulfilment_take e k g' w") auto
qed

lemma fulfilment_take_blocks:
  assumes "map (to_content_block_entity e) bs = map Inr ens"
  shows "fulfilment_take e (length ens + Suc n) (FulBlocks bs) w =
           (map Yield ens @ replicate (Suc n) StopIteration, FulFinished, w)"
  using assms
proof (induction bs arbitrary: ens)
  case Nil
  have "fulfilment_take e m FulFinished w = (replicate m StopIteration, FulFinished, w)" for m
    by (induction m) auto
  with Nil show ?case by simp
next
  case (Cons b bs)
  then obtain en ens' where "ens = en # ens'" "to_content_block_entity e b = Inr en"
    "map (to_content_block_entity e) bs = map Inr ens'" by (cases ens) auto
  with Cons.IH[of ens'] show ?case by simp
qed

text \<open>
  C8. A \<^verbatim>\<open>fulfilment\<close> generator whose request is answered by a poll response, whatever
  its \<^verbatim>\<open>more\<close> flag, hands over the converted blocks of that response in order and then
  ends; and however long it is consumed and whatever the server answers, the requests it
  has sent are the one fulfilment request for the result id and part number of the call.
\<close>

theorem fulfilment_single_part:
  assumes "execute_request e (requests w)
             (PollFulfillmentRequest \<lparr>fr_message_id = ids_generated w, fr_collection_name = c,
                fr_result_id = rid, fr_result_part_number = part\<rparr>) u SVC_POLL = Inr (PollResponse r)"
      and "map (to_content_block_entity e) (content_blocks r) = map Inr ens"
  shows "fst (fulfilment_take e (length ens + Suc n) (fst (fulfilment c rid part u w)) w) =
           map Yield ens @ replicate (Suc n) StopIteration
         \<and> (\<forall>e' k. requests (snd (snd (fulfilment_take e' (Suc k) (fst (fulfilment c rid part u w)) w))) =
              requests w @ [(PollFulfillmentRequest \<lparr>fr_message_id = ids_generated w, fr_collection_name = c,
                               fr_result_id = rid, fr_result_part_number = part\<rparr>, u, SVC_POLL)])"
proof
  let ?w2 = "w\<lparr>ids_generated := Suc (ids_generated w),
               requests := requests w @ [(PollFulfillmentRequest \<lparr>fr_message_id = ids_generated w, fr_collection_name = c,
                               fr_result_id = rid, fr_result_part_number = part\<rparr>, u, SVC_POLL)]\<rparr>"
  show "fst (fulfilment_take e (length ens + Suc n) (fst (fulfilment c rid part u w)) w) =
           map Yield ens @ replicate (Suc n) StopIteration"
  proof (cases "content_blocks r")
    case Nil
    with assms(2) have ens: "ens = []" by simp
    have fin: "fulfilment_take e m FulFinished w0 = (replicate m StopIteration, FulFinished, w0)" for m w0
      by (induction m) auto
    from assms(1) Nil have "fulfilment_next e (FulNew c rid part u) w = (StopIteration, FulFinished, ?w2)"
      by (simp add: generate_id_def execute_def)
    with ens fin show ?thesis by (simp add: fulfilment_def)
  next
    case (Cons b bs)
    with assms(2) obtain en ens' where ens: "ens = en # ens'" and cb: "to_content_block_entity e b = Inr en"
      and rest: "map (to_content_block_entity e) bs = map Inr ens'" by (cases ens) auto
    from assms(1) Cons cb have "fulfilment_next e (FulNew c rid part u) w = (Yield en, FulBlocks bs, ?w2)"
      by (simp add: generate_id_def execute_def)
    with fulfilment_take_blocks[OF rest, of n ?w2] ens show ?thesis by (simp add: fulfilment_def)
  qed
next
  let ?req = "(PollFulfillmentRequest \<lparr>fr_message_id = ids_generated w, fr_collection_name = c,
                               fr_result_id = rid, fr_result_part_number = part\<rparr>, u, SVC_POLL)"
  show "\<forall>e' k. requests (snd (snd (fulfilment_take e' (Suc k) (fst (fulfilment c rid part u w)) w))) =
              requests w @ [?req]"
  proof (intro allI)
    fix e' k
    obtain out g' w' where n: "fulfilment_next e' (FulNew c rid part u) w = (out, g', w')"
      by (cases "fulfilment_next e' (FulNew c rid part u) w") auto
    then have w': "requests w' = requests w @ [?req]" and g': "\<forall>c rid part u. g' \<noteq> FulNew c rid part u"
      by (auto simp: generate_id_def execute_def Let_def split: sum.splits response.splits dest: ful_loop_world)
    obtain outs g'' w'' where t: "fulfilment_take e' k g' w' = (outs, g'', w'')"
      by (cases "fulfilment_take e' k g' w'") auto
    from fulfilment_take_started[OF g', of e' k w'] t have same: "w'' = w'" by simp
    have "fulfilment_take e' (Suc k) (FulNew c rid part u) w = (out # outs, g'', w'')"
      using n t by (simp del: fulfilment_next.simps)
    with same w'
    show "requests (snd (snd (fulfilment_take e' (Suc k) (fst (fulfilment c rid part u w)) w))) =
              requests w @ [?req]"
      by (simp add: fulfilment_def)
  qed
qed

theorem fulfilment_single_part_witness:
  "fst (fulfilment_take two_part_env 5 (fst (fulfilment ''feed'' ''r1'' 2 None world0)) world0) =
     [Yield entity_b, Yield entity_c, StopIteration, StopIteration, StopIteration]
   \<and> requests (snd (snd (fulfilment_take two_part_env 5 (fst (fulfilment ''feed'' ''r1'' 2 None world0)) world0))) =
     [(PollFulfillmentRequest \<lparr>fr_message_id = 0, fr_collection_name = ''feed'',
         fr_result_id = ''r1'', fr_result_part_number = 2\<rparr>, None, SVC_POLL)]"
proof -
  have ex: "execute_request two_part_env (requests world0)
             (PollFulfillmentRequest \<lparr>fr_message_id = ids_generated world0, fr_collection_name = ''feed'',
                fr_result_id = ''r1'', fr_result_part_number = 2\<rparr>) None SVC_POLL =
            Inr (PollResponse \<lparr>content_blocks = [block_b, block_c], more_flag = False,
                               result_id = ''r1'', result_part_number = 2\<rparr>)"
    by (simp add: two_part_env_def)
  have conv: "map (to_content_block_entity two_part_env)
                (content_blocks \<lparr>content_blocks = [block_b, block_c], more_flag = False,
                               result_id = ''r1'', result_part_number = 2\<rparr>) = map Inr [entity_b, entity_c]"
    by (simp add: sample_defs)
  from fulfilment_single_part[OF ex conv, of 2]
  show ?thesis
    by (simp add: world0_def numeral_eq_Suc del: fulfilment_take.simps)
qed

subsection \<open>Nothing happens at call time\<close>

lemma ful_loop_same_world: "ful_loop e bs w = (out, g', w') \<Longrightarrow> w' = w"
  by (cases bs) (auto split: sum.splits)

lemma fulfilment_next_extends:
  assumes "fulfilment_next e g w = (out, g', w')"
  shows "(\<exists>rest. requests w' = requests w @ rest) \<and> ids_generated w \<le> ids_generated w'"
  using assms
  by (cases g)
     (auto simp: generate_id_def execute_def Let_def split: sum.splits response.splits
           dest!: ful_loop_same_world)

lemma poll_step_extends:
  assumes "poll_step e st w = (res, st', w')"
  shows "(\<exists>rest. requests w' = requests w @ rest) \<and> ids_generated w \<le> ids_generated w'"
proof (cases st)
  case (PollNew a)
  with assms show ?thesis
    by (auto simp: generate_id_def execute_def Let_def split: sum.splits response.splits)
next
  case (PollBlocks a r bs)
  with assms show ?thesis by (cases bs) (auto split: sum.splits)
next
  case (PollWhile a r)
  with assms show ?thesis by (auto simp: fulfilment_def split: if_splits)
next
  case (PollFulfil a r g)
  obtain out g' w1 where n: "fulfilment_next e g w = (out, g', w1)"
    by (cases "fulfilment_next e g w") auto
  from assms PollFulfil n have "w' = w1" by (cases out) auto
  with fulfilment_next_extends[OF n] show ?thesis by simp
next
  case PollFinished
  with assms show ?thesis by simp
qed

lemma poll_next_extends:
  assumes "poll_next e fuel st w = Some (out, st', w')"
  shows "(\<exists>rest. requests w' = requests w @ rest) \<and> ids_generated w \<le> ids_generated w'"
  using assms
proof (induction fuel arbitrary: st w)
  case 0
  then show ?case by simp
next
  case (Suc fuel)
  obtain res s1 w1 where st: "poll_step e st w = (res, s1, w1)" by (cases "poll_step e st w") auto
  from poll_step_extends[OF st] obtain r1 where r1: "requests w1 = requests w @ r1"
    and i1: "ids_generated w \<le> ids_generated w1" by blast
  show ?case
  proof (cases res)
    case None
    with Suc.prems st have "poll_next e fuel s1 w1 = Some (out, st', w')" by simp
    from Suc.IH[OF this] r1 i1 show ?thesis by auto
  next
    case (Some a)
    with Suc.prems st have "w' = w1" by simp
    with r1 i1 show ?thesis by simp
  qed
qed

text \<open>
  C9. The calls \<^verbatim>\<open>poll(...)\<close> and \<^verbatim>\<open>fulfilment(...)\<close> leave the world as it was: no
  identifier generated, no request sent. The first \<^verbatim>\<open>next()\<close> on the \<^verbatim>\<open>poll\<close> generator
  generates the identifier and sends the poll request before anything else; the first
  \<^verbatim>\<open>next()\<close> on the \<^verbatim>\<open>fulfilment\<close> generator generates one identifier and sends its one
  request.
\<close>

theorem generators_start_on_first_next:
  "snd (poll a w) = w
   \<and> snd (fulfilment c rid part u w) = w
   \<and> (\<forall>e fuel out st' w'.
        poll_next e fuel (fst (poll a w)) w = Some (out, st', w') \<longrightarrow>
          ids_generated w < ids_generated w'
          \<and> (\<exists>rest. requests w' =
                requests w @ (PollRequest (build_poll_request e (ids_generated w) a), uri a, SVC_POLL) # rest))
   \<and> (\<forall>e. ids_generated (snd (snd (fulfilment_next e (fst (fulfilment c rid part u w)) w))) =
              Suc (ids_generated w)
          \<and> requests (snd (snd (fulfilment_next e (fst (fulfilment c rid part u w)) w))) =
              requests w @ [(PollFulfillmentRequest \<lparr>fr_message_id = ids_generated w, fr_collection_name = c,
                               fr_result_id = rid, fr_result_part_number = part\<rparr>, u, SVC_POLL)])"
proof (intro conjI allI impI)
  show "snd (poll a w) = w" by (simp add: poll_def)
  show "snd (fulfilment c rid part u w) = w" by (simp add: fulfilment_def)
next
  fix e fuel out st' w'
  assume n: "poll_next e fuel (fst (poll a w)) w = Some (out, st', w')"
  then obtain f where f: "fuel = Suc f" by (cases fuel) auto
  let ?req = "(PollRequest (build_poll_request e (ids_generated w) a), uri a, SVC_POLL)"
  obtain res s1 w1 where st: "poll_step e (PollNew a) w = (res, s1, w1)"
    by (cases "poll_step e (PollNew a) w") auto
  then have w1: "requests w1 = requests w @ [?req]" "ids_generated w1 = Suc (ids_generated w)"
    by (auto simp: generate_id_def execute_def Let_def split: sum.splits response.splits)
  have ext: "(\<exists>rest. requests w' = requests w1 @ rest) \<and> ids_generated w1 \<le> ids_generated w'"
  proof (cases res)
    case None
    with n f st have "poll_next e f s1 w1 = Some (out, st', w')" by (simp add: poll_def)
    from poll_next_extends[OF this] show ?thesis .
  next
    case (Some x)
    with n f st have "w' = w1" by (simp add: poll_def)
    then show ?thesis by simp
  qed
  from ext w1 show "ids_generated w < ids_generated w'" by simp
  from ext w1 show "\<exists>rest. requests w' = requests w @ ?req # rest" by auto
next
  fix e
  obtain out g' w1 where n: "fulfilment_next e (FulNew c rid part u) w = (out, g', w1)"
    by (cases "fulfilment_next e (FulNew c rid part u) w") auto
  then have "ids_generated w1 = Suc (ids_generated w) \<and> requests w1 = requests w @ [(PollFulfillmentRequest \<lparr>fr_message_id = ids_generated w, fr_collection_name = c,
                               fr_result_id = rid, fr_result_part_number = part\<rparr>, u, SVC_POLL)]"
    by (auto simp: generate_id_def execute_def Let_def split: sum.splits response.splits
           dest!: ful_loop_same_world)
  with n show "ids_generated (snd (snd (fulfilment_next e (fst (fulfilment c rid part u w)) w))) =
              Suc (ids_generated w)"
    and "requests (snd (snd (fulfilment_next e (fst (fulfilment c rid part u w)) w))) =
              requests w @ [(PollFulfillmentRequest \<lparr>fr_message_id = ids_generated w, fr_collection_name = c,
                               fr_result_id = rid, fr_result_part_number = part\<rparr>, u, SVC_POLL)]"
    by (simp_all add: fulfilment_def del: fulfilment_next.simps)
qed

theorem generators_start_on_first_next_witness:
  "snd (poll feed_args world0) = world0
   \<and> poll_next two_part_env 3 (fst (poll feed_args world0)) world0 =
       Some (Yield entity_a,
             PollBlocks feed_args \<lparr>content_blocks = [block_a], more_flag = True,
                                   result_id = ''r1'', result_part_number = 1\<rparr> [],
             \<lparr>ids_generated = 1,
              requests = [(PollRequest (build_poll_request two_part_env 0 feed_args), None, SVC_POLL)]\<rparr>)
   \<and> ids_generated world0 <
       ids_generated (snd (snd (the (poll_next two_part_env 3 (fst (poll feed_args world0)) world0))))"
proof -
  have n: "poll_next two_part_env 3 (fst (poll feed_args world0)) world0 =
       Some (Yield entity_a,
             PollBlocks feed_args \<lparr>content_blocks = [block_a], more_flag = True,
                                   result_id = ''r1'', result_part_number = 1\<rparr> [],
             \<lparr>ids_generated = 1,
              requests = [(PollRequest (build_poll_request two_part_env 0 feed_args), None, SVC_POLL)]\<rparr>)"
    by (simp add: sample_defs op_defs numeral_eq_Suc)
  from generators_start_on_first_next[of feed_args world0] n
  have "ids_generated world0 <
       ids_generated \<lparr>ids_generated = 1,
              requests = [(PollRequest (build_poll_request two_part_env 0 feed_args), None, SVC_POLL)]\<rparr>"
    by blast
  moreover from generators_start_on_first_next[of feed_args world0]
  have "snd (poll feed_args world0) = world0" by blast
  ultimately show ?thesis using n by simp
qed

end
